theory Spec2Isabelle
  imports Main
begin

section \<open>Python values\<close>

text \<open>
  A Python \<open>str\<close> is a sequence of Unicode code points; slicing, \<open>len\<close>,
  \<open>replace\<close> and \<open>==\<close> all work on code points. A character is therefore a
  natural number and a string a list of them. \<open>lit\<close> embeds the ASCII literals of
  the source.
\<close>

type_synonym pychar = nat
type_synonym pystr = "pychar list"

definition lit :: "string \<Rightarrow> pystr" where
  "lit s = map of_char s"

text \<open>
  The exceptions that can be raised in the modelled code, all of them instances of
  \<open>Exception\<close>. \<open>LibraryError m\<close> is an exception raised inside one of the
  external collaborators (the PDF and DOCX libraries, the remote client), with its
  message.
\<close>

datatype exn =
    JSONDecodeError
  | IndexError
  | AttributeError
  | UnicodeEncodeError
  | LibraryError pystr

text \<open>
  \<open>str.isspace\<close> of one character: the code points Python treats as whitespace,
  which are the ones \<open>str.strip()\<close> removes from both ends.
\<close>

definition isspace :: "pychar \<Rightarrow> bool" where
  "isspace c =
     ((9 \<le> c \<and> c \<le> 13) \<or> (28 \<le> c \<and> c \<le> 32) \<or> c = 133 \<or> c = 160 \<or> c = 5760
      \<or> (8192 \<le> c \<and> c \<le> 8202) \<or> c = 8232 \<or> c = 8233 \<or> c = 8239 \<or> c = 8287
      \<or> c = 12288)"

definition strip :: "pystr \<Rightarrow> pystr" where
  "strip s = rev (dropWhile isspace (rev (dropWhile isspace s)))"

definition endswith :: "pystr \<Rightarrow> pystr \<Rightarrow> bool" where
  "endswith s suffix' =
     (length suffix' \<le> length s \<and> drop (length s - length suffix') s = suffix')"

text \<open>\<open>s.replace(old, new)\<close> where \<open>old\<close> and \<open>new\<close> are single characters.\<close>

definition replace_char :: "pychar \<Rightarrow> pychar \<Rightarrow> pystr \<Rightarrow> pystr" where
  "replace_char old new s = map (\<lambda>c. if c = old then new else c) s"

text \<open>
  \<open>str.lower()\<close> on ASCII text; it is applied to the tone names only, which are
  ASCII.
\<close>

definition lower :: "pystr \<Rightarrow> pystr" where
  "lower s = map (\<lambda>c. if 65 \<le> c \<and> c \<le> 90 then c + 32 else c) s"

text \<open>The decimal text of an \<open>int\<close>, as an f-string formats it.\<close>

fun str_nat :: "nat \<Rightarrow> pystr" where
  "str_nat n = (if n < 10 then [48 + n] else str_nat (n div 10) @ [48 + n mod 10])"

declare str_nat.simps [simp del]

definition str_int :: "int \<Rightarrow> pystr" where
  "str_int i = (if i < 0 then 45 # str_nat (nat (- i)) else str_nat (nat i))"

text \<open>\<open>s.encode("utf-8")\<close>: a lone surrogate cannot be encoded.\<close>

definition utf8_char :: "pychar \<Rightarrow> exn + nat list" where
  "utf8_char c =
     (if c < 128 then Inr [c]
      else if c < 2048 then Inr [192 + c div 64, 128 + c mod 64]
      else if 55296 \<le> c \<and> c \<le> 57343 then Inl UnicodeEncodeError
      else if c < 65536 then Inr [224 + c div 4096, 128 + c div 64 mod 64, 128 + c mod 64]
      else Inr [240 + c div 262144, 128 + c div 4096 mod 64, 128 + c div 64 mod 64,
                128 + c mod 64])"

fun encode_utf8 :: "pystr \<Rightarrow> exn + nat list" where
  "encode_utf8 [] = Inr []"
| "encode_utf8 (c # cs) =
     (case utf8_char c of
        Inl e \<Rightarrow> Inl e
      | Inr bs \<Rightarrow> (case encode_utf8 cs of Inl e \<Rightarrow> Inl e | Inr rest \<Rightarrow> Inr (bs @ rest)))"

section \<open>What a run shows to the user\<close>

text \<open>
  The calls into the UI framework that display something, in the order they are
  made. \<open>Error prefix e\<close> is \<open>st.error(f"{prefix}{e}")\<close>; \<open>DownloadButton\<close>
  carries label, data, file name and MIME type.
\<close>

datatype ui =
    SidebarError pystr
  | SidebarSuccess pystr
  | Warning pystr
  | Spinner pystr
  | Success pystr
  | TextArea pystr pystr
  | Subheader pystr
  | DownloadButton pystr "nat list" pystr pystr
  | Error pystr exn

section \<open>Persisted files\<close>

text \<open>
  \<open>users.json\<close> holds a JSON object from username to \<open>{"password": ...}\<close>;
  each history file holds a JSON array of \<open>{title, content, timestamp}\<close> objects.
  \<open>json.dump\<close> followed by \<open>json.load\<close> gives back the same dicts, lists and
  strings, so a file is modelled by the document it holds. \<open>Malformed\<close> is a
  file whose bytes \<open>json.load\<close> rejects. A file that does not
  exist is \<open>None\<close>. Opening an existing or new path for writing succeeds.

  No history path is ever the path of the user file: every history path ends in
  \<open>_history.json\<close>. The two kinds of file are therefore kept in two components.
\<close>

record user_record =
  password :: pystr

type_synonym users = "pystr \<rightharpoonup> user_record"

record entry =
  title :: pystr
  content :: pystr
  timestamp :: pystr

datatype 'a stored = Json 'a | Malformed

record filesystem =
  users_json :: "users stored option"
  history_files :: "pystr \<rightharpoonup> entry list stored"

definition ESSAY_HISTORY_DIR :: pystr where
  "ESSAY_HISTORY_DIR = lit ''essay_history''"

text \<open>\<open>os.path.join\<close> with two arguments, on a POSIX system (separator \<open>/\<close>, code 47).\<close>

definition path_join :: "pystr \<Rightarrow> pystr \<Rightarrow> pystr" where
  "path_join a b =
     (if take 1 b = [47] then b
      else if a = [] \<or> last a = 47 then a @ b
      else a @ [47] @ b)"

definition user_history_path :: "pystr \<Rightarrow> pystr" where
  "user_history_path user = path_join ESSAY_HISTORY_DIR (user @ lit ''_history.json'')"

section \<open>History store\<close>

definition load_history :: "filesystem \<Rightarrow> pystr \<Rightarrow> exn + entry list" where
  "load_history fs path =
     (case history_files fs path of
        Some (Json history) \<Rightarrow> Inr history
      | Some Malformed \<Rightarrow> Inl JSONDecodeError
      | None \<Rightarrow> Inr [])"

text \<open>
  \<open>now\<close> is the value of \<open>datetime.now().strftime("%Y-%m-%d %H:%M:%S")\<close> at the
  call.
\<close>

definition save_essay :: "filesystem \<Rightarrow> pystr \<Rightarrow> pystr \<Rightarrow> pystr \<Rightarrow> pystr \<Rightarrow> exn + filesystem" where
  "save_essay fs path now title' content' =
     (case load_history fs path of
        Inl e \<Rightarrow> Inl e
      | Inr history \<Rightarrow>
          Inr (fs\<lparr>history_files := (history_files fs)
                 (path \<mapsto> Json (history @ [\<lparr>title = title', content = content', timestamp = now\<rparr>]))\<rparr>))"



section \<open>Credential store, signup and login\<close>

definition load_users :: "filesystem \<Rightarrow> exn + users" where
  "load_users fs =
     (case users_json fs of
        None \<Rightarrow> Inr Map.empty
      | Some Malformed \<Rightarrow> Inl JSONDecodeError
      | Some (Json users) \<Rightarrow> Inr users)"

definition save_users :: "filesystem \<Rightarrow> users \<Rightarrow> filesystem" where
  "save_users fs users = fs\<lparr>users_json := Some (Json users)\<rparr>"

text \<open>
  The body of the \<open>Create Account\<close> button. \<open>users\<close> is the module-level dict
  that \<open>load_users()\<close> returned at the start of the run; the result is the file
  system, the dict and what is shown afterwards.
\<close>

definition signup :: "filesystem \<Rightarrow> users \<Rightarrow> pystr \<Rightarrow> pystr \<Rightarrow> filesystem \<times> users \<times> ui list" where
  "signup fs users username password' =
     (if users username \<noteq> None then
        (fs, users, [SidebarError (lit ''Username already exists.'')])
      else
        (let users' = users(username \<mapsto> \<lparr>password = password'\<rparr>)
         in (save_users fs users', users', [SidebarSuccess (lit ''Account created! Please log in now.'')])))"

text \<open>
  The body of the \<open>Login\<close> button. \<open>st.session_state\<close> is a dict; the only key the
  program writes is \<open>"user"\<close>. The \<open>or\<close> of the source does not look the password
  up when the username is absent.
\<close>

type_synonym session_state = "pystr \<rightharpoonup> pystr"

definition login :: "users \<Rightarrow> session_state \<Rightarrow> pystr \<Rightarrow> pystr \<Rightarrow> session_state \<times> ui list" where
  "login users session username password' =
     (case users username of
        None \<Rightarrow> (session, [SidebarError (lit ''Invalid username or password.'')])
      | Some r \<Rightarrow>
          if password r \<noteq> password' then
            (session, [SidebarError (lit ''Invalid username or password.'')])
          else
            (session(lit ''user'' \<mapsto> username),
             [SidebarSuccess (lit ''Welcome, '' @ username @ lit ''!'')]))"

section \<open>Content extractor\<close>

text \<open>
  An uploaded file, as far as \<open>extract_text\<close> can observe it: its name and what the
  two parsing libraries do with its bytes. \<open>pdf_reader\<close> is the outcome of
  \<open>PdfReader(file)\<close>: an exception, or the pages, each page being the outcome of its
  \<open>extract_text()\<close> (an exception, \<open>None\<close> or a string). \<open>docx_document\<close> is the
  outcome of \<open>Document(file)\<close>: an exception, or the paragraphs' texts.
\<close>

record uploaded_file =
  name :: pystr
  pdf_reader :: "exn + (exn + pystr option) list"
  docx_document :: "exn + pystr list"

text \<open>\<open>x or ""\<close> for \<open>x\<close> a string or \<open>None\<close>.\<close>

definition or_empty :: "pystr option \<Rightarrow> pystr" where
  "or_empty x = (case x of None \<Rightarrow> [] | Some s \<Rightarrow> if s = [] then [] else s)"

fun extract_pages :: "pystr \<Rightarrow> (exn + pystr option) list \<Rightarrow> exn + pystr" where
  "extract_pages text [] = Inr text"
| "extract_pages text (page # pages) =
     (case page of
        Inl e \<Rightarrow> Inl e
      | Inr x \<Rightarrow> extract_pages (text @ or_empty x) pages)"

fun add_paragraphs :: "pystr \<Rightarrow> pystr list \<Rightarrow> pystr" where
  "add_paragraphs text [] = text"
| "add_paragraphs text (para # paras) = add_paragraphs (text @ para @ [10]) paras"

definition extract_text :: "uploaded_file \<Rightarrow> exn + pystr" where
  "extract_text file =
     (if endswith (name file) (lit ''.pdf'') then
        (case pdf_reader file of
           Inl e \<Rightarrow> Inl e
         | Inr pages \<Rightarrow>
             (case extract_pages [] pages of
                Inl e \<Rightarrow> Inl e
              | Inr text \<Rightarrow> Inr (strip text)))
      else if endswith (name file) (lit ''.docx'') then
        (case docx_document file of
           Inl e \<Rightarrow> Inl e
         | Inr paras \<Rightarrow> Inr (strip (add_paragraphs [] paras)))
      else Inr (strip []))"

section \<open>Essay generation\<close>

datatype tone = Academic | Analytical | Reflective | Creative | Persuasive | Narrative

fun tone_str :: "tone \<Rightarrow> pystr" where
  "tone_str Academic = lit ''Academic''"
| "tone_str Analytical = lit ''Analytical''"
| "tone_str Reflective = lit ''Reflective''"
| "tone_str Creative = lit ''Creative''"
| "tone_str Persuasive = lit ''Persuasive''"
| "tone_str Narrative = lit ''Narrative''"

text \<open>The value of \<open>base_prompt\<close> when the request is submitted.\<close>

definition base_prompt :: "tone \<Rightarrow> int \<Rightarrow> pystr \<Rightarrow> pystr \<Rightarrow> pystr" where
  "base_prompt tn word_count topic text_data =
     (let prompt =
        lit ''Write a '' @ lower (tone_str tn) @ lit '' essay of around '' @ str_int word_count
        @ lit '' words on the topic: '' @ [39] @ topic @ [39] @ lit ''. ''
        @ lit ''Include an introduction, body, and conclusion. Make it coherent, structured, and engaging.''
      in if text_data \<noteq> [] then
           prompt @ [10, 10] @ lit ''Use the following text as supporting material:'' @ [10]
           @ take 4000 text_data
         else prompt)"

text \<open>
  The collaborators of one generation cycle. \<open>create\<close> is
  \<open>client.chat.completions.create\<close> as a function of the submitted message: it
  raises, or returns a response, which is the list of its choices, each the
  \<open>message.content\<close> of the choice (a string or \<open>None\<close>). \<open>now\<close> is the formatted
  clock reading. \<open>docx_save\<close> is the document library building a document with the
  given heading and paragraph and saving it to a buffer: it raises, or gives the
  bytes.
\<close>

type_synonym response = "pystr option list"

record env =
  create :: "pystr \<Rightarrow> exn + response"
  now :: pystr
  docx_save :: "pystr \<Rightarrow> pystr \<Rightarrow> exn + nat list"

text \<open>\<open>response.choices[0].message.content.strip()\<close>\<close>

definition response_essay :: "response \<Rightarrow> exn + pystr" where
  "response_essay choices =
     (case choices of
        [] \<Rightarrow> Inl IndexError
      | c # _ \<Rightarrow> (case c of None \<Rightarrow> Inl AttributeError | Some s \<Rightarrow> Inr (strip s)))"

definition docx_file_name :: "pystr \<Rightarrow> pystr" where
  "docx_file_name topic = replace_char 32 95 (take 30 topic) @ lit ''_essay.docx''"

definition txt_file_name :: "pystr \<Rightarrow> pystr" where
  "txt_file_name topic = replace_char 32 95 (take 30 topic) @ lit ''_essay.txt''"

text \<open>
  The state of a generation cycle: the file system, what has been shown, and the
  messages submitted to the remote service so far.
\<close>

record cycle =
  files :: filesystem
  shown :: "ui list"
  submitted :: "pystr list"

text \<open>
  The body of the \<open>try\<close>: the state it reaches, and the exception that ended it, if
  one did.
\<close>

definition try_body :: "env \<Rightarrow> filesystem \<Rightarrow> pystr \<Rightarrow> pystr \<Rightarrow> pystr \<Rightarrow> cycle \<times> exn option" where
  "try_body ev fs path topic prompt =
     (case create ev prompt of
        Inl e \<Rightarrow> (\<lparr>files = fs, shown = [], submitted = [prompt]\<rparr>, Some e)
      | Inr response \<Rightarrow>
     (case response_essay response of
        Inl e \<Rightarrow> (\<lparr>files = fs, shown = [], submitted = [prompt]\<rparr>, Some e)
      | Inr essay \<Rightarrow>
     (let shown1 = [Success ([9989] @ lit '' Essay generated successfully!''),
                    TextArea (lit ''Generated Essay'') essay]
      in case save_essay fs path (now ev) topic essay of
        Inl e \<Rightarrow> (\<lparr>files = fs, shown = shown1, submitted = [prompt]\<rparr>, Some e)
      | Inr fs' \<Rightarrow>
     (let shown2 = shown1 @ [Subheader ([11015, 65039] @ lit '' Download Options'')]
      in case docx_save ev (lit ''AI-Generated Essay'') essay of
        Inl e \<Rightarrow> (\<lparr>files = fs', shown = shown2, submitted = [prompt]\<rparr>, Some e)
      | Inr docx \<Rightarrow>
     (let shown3 = shown2 @
            [DownloadButton ([128216] @ lit '' Download as DOCX'') docx (docx_file_name topic)
               (lit ''application/vnd.openxmlformats-officedocument.wordprocessingml.document'')]
      in case encode_utf8 essay of
        Inl e \<Rightarrow> (\<lparr>files = fs', shown = shown3, submitted = [prompt]\<rparr>, Some e)
      | Inr txt \<Rightarrow>
          (\<lparr>files = fs',
            shown = shown3 @
              [DownloadButton ([128196] @ lit '' Download as TXT'') txt (txt_file_name topic)
                 (lit ''text/plain'')],
            submitted = [prompt]\<rparr>, None))))))"

text \<open>
  The body of the \<open>Generate Essay\<close> button, for the logged-in user whose history
  file is \<open>path\<close>.
\<close>

definition generate_essay ::
  "env \<Rightarrow> filesystem \<Rightarrow> pystr \<Rightarrow> tone \<Rightarrow> int \<Rightarrow> pystr \<Rightarrow> pystr \<Rightarrow> cycle" where
  "generate_essay ev fs path tn word_count topic text_data =
     (if topic = [] \<and> text_data = [] then
        \<lparr>files = fs,
         shown = [Warning (lit ''Please provide a topic or upload content first.'')],
         submitted = []\<rparr>
      else
        (let spinner = Spinner (lit ''Generating your essay... Please wait '' @ [9203])
         in case try_body ev fs path topic (base_prompt tn word_count topic text_data) of
              (c, None) \<Rightarrow> c\<lparr>shown := spinner # shown c\<rparr>
            | (c, Some e) \<Rightarrow>
                c\<lparr>shown := spinner # shown c @ [Error ([10060] @ lit '' Error: '') e]\<rparr>))"

section \<open>Properties of the history store\<close>



lemma user_history_path_example:
  "user_history_path (lit ''amy'') = lit ''essay_history/amy_history.json''"
  by (simp add: user_history_path_def path_join_def ESSAY_HISTORY_DIR_def lit_def)

text \<open>
  C9. When the history file of a user does not exist, \<open>load_history\<close> returns the
  empty list and raises nothing.
\<close>

theorem load_history_absent:
  "history_files fs (user_history_path user) = None \<Longrightarrow>
   load_history fs (user_history_path user) = Inr []"
  by (simp add: load_history_def)

theorem load_history_absent_witness:
  "history_files \<lparr>users_json = None, history_files = Map.empty\<rparr> (user_history_path (lit ''amy'')) = None
   \<and> load_history \<lparr>users_json = None, history_files = Map.empty\<rparr> (user_history_path (lit ''amy'')) = Inr []"
  using load_history_absent [of "\<lparr>users_json = None, history_files = Map.empty\<rparr>" "lit ''amy''"]
  by simp



section \<open>Properties of signup and login\<close>

text \<open>
  C2. When the username is already a key of the credential store, signup reports
  that the username exists and changes nothing: the dict in memory and the file
  system (so the record of that username and every other record) are as before.
\<close>

theorem signup_existing_username:
  "users username = Some r \<Longrightarrow>
   signup fs users username pw = (fs, users, [SidebarError (lit ''Username already exists.'')])"
  by (simp add: signup_def)

theorem signup_existing_username_witness:
  "[lit ''amy'' \<mapsto> \<lparr>password = lit ''pw1''\<rparr>, lit ''bob'' \<mapsto> \<lparr>password = lit ''pw2''\<rparr>] (lit ''amy'')
     = Some \<lparr>password = lit ''pw1''\<rparr>
   \<and> signup \<lparr>users_json = Some (Json [lit ''amy'' \<mapsto> \<lparr>password = lit ''pw1''\<rparr>, lit ''bob'' \<mapsto> \<lparr>password = lit ''pw2''\<rparr>]),
               history_files = Map.empty\<rparr>
        [lit ''amy'' \<mapsto> \<lparr>password = lit ''pw1''\<rparr>, lit ''bob'' \<mapsto> \<lparr>password = lit ''pw2''\<rparr>]
        (lit ''amy'') (lit ''other'')
     = (\<lparr>users_json = Some (Json [lit ''amy'' \<mapsto> \<lparr>password = lit ''pw1''\<rparr>, lit ''bob'' \<mapsto> \<lparr>password = lit ''pw2''\<rparr>]),
               history_files = Map.empty\<rparr>,
        [lit ''amy'' \<mapsto> \<lparr>password = lit ''pw1''\<rparr>, lit ''bob'' \<mapsto> \<lparr>password = lit ''pw2''\<rparr>],
        [SidebarError (lit ''Username already exists.'')])"
proof -
  have h: "[lit ''amy'' \<mapsto> \<lparr>password = lit ''pw1''\<rparr>, lit ''bob'' \<mapsto> \<lparr>password = lit ''pw2''\<rparr>] (lit ''amy'')
     = Some \<lparr>password = lit ''pw1''\<rparr>"
    by (simp add: lit_def)
  from signup_existing_username
         [of "[lit ''amy'' \<mapsto> \<lparr>password = lit ''pw1''\<rparr>, lit ''bob'' \<mapsto> \<lparr>password = lit ''pw2''\<rparr>]"
             "lit ''amy''" "\<lparr>password = lit ''pw1''\<rparr>"
             "\<lparr>users_json = Some (Json [lit ''amy'' \<mapsto> \<lparr>password = lit ''pw1''\<rparr>, lit ''bob'' \<mapsto> \<lparr>password = lit ''pw2''\<rparr>]),
               history_files = Map.empty\<rparr>" "lit ''other''", OF h] h
  show ?thesis
    by blast
qed

text \<open>
  C3. Login succeeds exactly when the username is a key and the stored password
  equals the supplied one, character for character; in every other case it shows
  the invalid-credentials error and leaves the session as it was.
\<close>

theorem login_succeeds_iff:
  "login users session username pw =
     (if \<exists>r. users username = Some r \<and> password r = pw then
        (session(lit ''user'' \<mapsto> username), [SidebarSuccess (lit ''Welcome, '' @ username @ lit ''!'')])
      else (session, [SidebarError (lit ''Invalid username or password.'')]))"
  by (auto simp add: login_def split: option.splits)

theorem login_succeeds_iff_witness:
  "login [lit ''amy'' \<mapsto> \<lparr>password = lit ''Pw1''\<rparr>] Map.empty (lit ''amy'') (lit ''Pw1'')
     = (Map.empty(lit ''user'' \<mapsto> lit ''amy''), [SidebarSuccess (lit ''Welcome, amy!'')])
   \<and> login [lit ''amy'' \<mapsto> \<lparr>password = lit ''Pw1''\<rparr>] Map.empty (lit ''amy'') (lit ''pw1'')
     = (Map.empty, [SidebarError (lit ''Invalid username or password.'')])
   \<and> login [lit ''amy'' \<mapsto> \<lparr>password = lit ''Pw1''\<rparr>] Map.empty (lit ''amy'') (lit ''Pw1 '')
     = (Map.empty, [SidebarError (lit ''Invalid username or password.'')])
   \<and> login [lit ''amy'' \<mapsto> \<lparr>password = lit ''Pw1''\<rparr>] Map.empty (lit ''Amy'') (lit ''Pw1'')
     = (Map.empty, [SidebarError (lit ''Invalid username or password.'')])"
  by (simp add: login_succeeds_iff lit_def)

section \<open>Properties of the content extractor\<close>

lemma extract_pages_all_return:
  "extract_pages acc (map Inr xs) = Inr (acc @ concat (map or_empty xs))"
  by (induction xs arbitrary: acc) simp_all

lemma extract_pages_first_raise:
  "extract_pages acc (map Inr xs @ Inl e # rest) = Inl e"
  by (induction xs arbitrary: acc) simp_all

lemma or_empty_eq: "or_empty = (\<lambda>x. case x of None \<Rightarrow> [] | Some s \<Rightarrow> s)"
  by (auto simp add: or_empty_def fun_eq_iff split: option.splits)

lemma extract_text_docx_example:
  "extract_text \<lparr>name = lit ''a.docx'', pdf_reader = Inl (LibraryError []),
                 docx_document = Inr [lit ''One.'', [], lit ''Two.'']\<rparr> = Inr (lit ''One.'' @ [10, 10] @ lit ''Two.'')"
  by (simp add: extract_text_def endswith_def strip_def isspace_def lit_def)

text \<open>
  C6, as the code has it. For a file whose name ends in \<open>.pdf\<close>: when the PDF
  reader and the \<open>extract_text\<close> of every page return, the result is the
  concatenation of the pages' texts in page order with the whitespace at both ends
  removed, a page that gives \<open>None\<close> or no text contributing the empty string;
  an exception raised by the PDF reader, or by the \<open>extract_text\<close> of a page, is
  not caught: it reaches the caller, and the pages after that page are not read.
\<close>

theorem extract_text_pdf:
  assumes "endswith (name f) (lit ''.pdf'')"
  shows "(pdf_reader f = Inr (map Inr xs) \<longrightarrow>
            extract_text f = Inr (strip (concat (map (\<lambda>x. case x of None \<Rightarrow> [] | Some s \<Rightarrow> s) xs))))
       \<and> (pdf_reader f = Inl e \<longrightarrow> extract_text f = Inl e)
       \<and> (pdf_reader f = Inr (map Inr xs @ Inl e # rest) \<longrightarrow> extract_text f = Inl e)"
  using assms
  by (simp add: extract_text_def extract_pages_all_return extract_pages_first_raise or_empty_eq)

theorem extract_text_pdf_witness:
  "endswith (lit ''notes.pdf'') (lit ''.pdf'')
   \<and> extract_text \<lparr>name = lit ''notes.pdf'',
                 pdf_reader = Inr [Inr (Some (lit '' Page one.'')), Inr None,
                                   Inr (Some (lit ''Page three. ''))],
                 docx_document = Inl (LibraryError [])\<rparr>
     = Inr (lit ''Page one.Page three.'')
   \<and> extract_text \<lparr>name = lit ''notes.pdf'',
                 pdf_reader = Inl (LibraryError (lit ''not a PDF'')),
                 docx_document = Inl (LibraryError [])\<rparr>
     = Inl (LibraryError (lit ''not a PDF''))
   \<and> extract_text \<lparr>name = lit ''notes.pdf'',
                 pdf_reader = Inr [Inr (Some (lit ''Page one. '')),
                                   Inl (LibraryError (lit ''unreadable page'')),
                                   Inr (Some (lit ''Page three.''))],
                 docx_document = Inl (LibraryError [])\<rparr>
     = Inl (LibraryError (lit ''unreadable page''))"
proof -
  have n: "endswith (lit ''notes.pdf'') (lit ''.pdf'')"
    by (simp add: endswith_def lit_def)
  have a: "extract_text \<lparr>name = lit ''notes.pdf'',
                 pdf_reader = Inr [Inr (Some (lit '' Page one.'')), Inr None,
                                   Inr (Some (lit ''Page three. ''))],
                 docx_document = Inl (LibraryError [])\<rparr>
     = Inr (lit ''Page one.Page three.'')"
    using n extract_text_pdf
      [of "\<lparr>name = lit ''notes.pdf'',
                 pdf_reader = Inr [Inr (Some (lit '' Page one.'')), Inr None,
                                   Inr (Some (lit ''Page three. ''))],
                 docx_document = Inl (LibraryError [])\<rparr>"
          "[Some (lit '' Page one.''), None, Some (lit ''Page three. '')]"]
    by (simp add: strip_def isspace_def lit_def)
  have b: "extract_text \<lparr>name = lit ''notes.pdf'',
                 pdf_reader = Inl (LibraryError (lit ''not a PDF'')),
                 docx_document = Inl (LibraryError [])\<rparr>
     = Inl (LibraryError (lit ''not a PDF''))"
    using n extract_text_pdf
      [of "\<lparr>name = lit ''notes.pdf'',
                 pdf_reader = Inl (LibraryError (lit ''not a PDF'')),
                 docx_document = Inl (LibraryError [])\<rparr>"
          _ "LibraryError (lit ''not a PDF'')"]
    by simp
  have c: "extract_text \<lparr>name = lit ''notes.pdf'',
                 pdf_reader = Inr [Inr (Some (lit ''Page one. '')),
                                   Inl (LibraryError (lit ''unreadable page'')),
                                   Inr (Some (lit ''Page three.''))],
                 docx_document = Inl (LibraryError [])\<rparr>
     = Inl (LibraryError (lit ''unreadable page''))"
    using n extract_text_pdf
      [of "\<lparr>name = lit ''notes.pdf'',
                 pdf_reader = Inr [Inr (Some (lit ''Page one. '')),
                                   Inl (LibraryError (lit ''unreadable page'')),
                                   Inr (Some (lit ''Page three.''))],
                 docx_document = Inl (LibraryError [])\<rparr>"
          "[Some (lit ''Page one. '')]" "LibraryError (lit ''unreadable page'')"
          "[Inr (Some (lit ''Page three.''))]"]
    by simp
  from n a b c show ?thesis
    by blast
qed

text \<open>
  C6 as stated does not hold. A page whose \<open>extract_text\<close> raises ends the
  extraction with that exception, although the other pages have text; and the
  result is not the plain concatenation of the pages' texts when that begins or ends
  with whitespace.
\<close>

theorem extract_text_pdf_counterexample:
  "extract_text \<lparr>name = lit ''notes.pdf'',
                 pdf_reader = Inr [Inr (Some (lit ''Page one. '')),
                                   Inl (LibraryError (lit ''unreadable page'')),
                                   Inr (Some (lit ''Page three.''))],
                 docx_document = Inl (LibraryError [])\<rparr>
     = Inl (LibraryError (lit ''unreadable page''))
   \<and> extract_text \<lparr>name = lit ''notes.pdf'',
                 pdf_reader = Inr [Inr (Some (lit '' Page one.'')), Inr None,
                                   Inr (Some (lit ''Page three. ''))],
                 docx_document = Inl (LibraryError [])\<rparr>
     \<noteq> Inr (lit '' Page one.'' @ [] @ lit ''Page three. '')"
  by (simp add: extract_text_def endswith_def lit_def strip_def isspace_def or_empty_def)

text \<open>
  C10. A file whose name ends neither in \<open>.pdf\<close> nor in \<open>.docx\<close> gives the
  empty string: neither library is called and nothing is raised. The comparison is
  case-sensitive, so \<open>REPORT.PDF\<close> is such a file.
\<close>

theorem unrecognised_extension_empty:
  "\<not> endswith (name f) (lit ''.pdf'') \<Longrightarrow> \<not> endswith (name f) (lit ''.docx'') \<Longrightarrow>
   extract_text f = Inr []"
  by (simp add: extract_text_def strip_def)

theorem unrecognised_extension_empty_witness:
  "\<not> endswith (lit ''REPORT.PDF'') (lit ''.pdf'') \<and> \<not> endswith (lit ''REPORT.PDF'') (lit ''.docx'')
   \<and> extract_text \<lparr>name = lit ''REPORT.PDF'',
                    pdf_reader = Inr [Inr (Some (lit ''Page one.''))],
                    docx_document = Inl (LibraryError (lit ''not a Word file''))\<rparr> = Inr []"
proof -
  have p: "\<not> endswith (lit ''REPORT.PDF'') (lit ''.pdf'')"
    by (simp add: endswith_def lit_def)
  have d: "\<not> endswith (lit ''REPORT.PDF'') (lit ''.docx'')"
    by (simp add: endswith_def lit_def)
  from unrecognised_extension_empty
    [of "\<lparr>name = lit ''REPORT.PDF'',
                    pdf_reader = Inr [Inr (Some (lit ''Page one.''))],
                    docx_document = Inl (LibraryError (lit ''not a Word file''))\<rparr>"] p d
  show ?thesis
    by simp
qed

section \<open>Properties of essay generation\<close>

lemma base_prompt_example:
  "base_prompt Academic 1000 (lit ''Bees'') [] =
     lit ''Write a academic essay of around 1000 words on the topic: 'Bees'. Include an introduction, body, and conclusion. Make it coherent, structured, and engaging.''"
  by (simp add: base_prompt_def lit_def lower_def str_int_def str_nat.simps)

lemma submitted_try_body: "submitted (fst (try_body ev fs path topic prompt)) = [prompt]"
  by (simp add: try_body_def Let_def split: sum.splits)

lemma submitted_generate:
  "topic \<noteq> [] \<or> text_data \<noteq> [] \<Longrightarrow>
   submitted (generate_essay ev fs path tn wc topic text_data) = [base_prompt tn wc topic text_data]"
  using submitted_try_body [of ev fs path topic "base_prompt tn wc topic text_data"]
  by (auto simp add: generate_essay_def Let_def split: prod.splits option.splits)

text \<open>A cycle that runs to its end, evaluated.\<close>

lemma generate_essay_example:
  "generate_essay
     \<lparr>create = (\<lambda>p. Inr [Some (lit '' An essay. '')]), now = lit ''2024-01-01 10:00:00'',
      docx_save = (\<lambda>h p. Inr [80, 75])\<rparr>
     \<lparr>users_json = None, history_files = Map.empty\<rparr> (lit ''essay_history/amy_history.json'')
     Academic 1000 (lit ''Bees'') [] =
   \<lparr>files = \<lparr>users_json = None,
             history_files = [lit ''essay_history/amy_history.json'' \<mapsto>
               Json [\<lparr>title = lit ''Bees'', content = lit ''An essay.'',
                      timestamp = lit ''2024-01-01 10:00:00''\<rparr>]]\<rparr>,
    shown = [Spinner (lit ''Generating your essay... Please wait '' @ [9203]),
             Success ([9989] @ lit '' Essay generated successfully!''),
             TextArea (lit ''Generated Essay'') (lit ''An essay.''),
             Subheader ([11015, 65039] @ lit '' Download Options''),
             DownloadButton ([128216] @ lit '' Download as DOCX'') [80, 75] (lit ''Bees_essay.docx'')
               (lit ''application/vnd.openxmlformats-officedocument.wordprocessingml.document''),
             DownloadButton ([128196] @ lit '' Download as TXT'') (lit ''An essay.'')
               (lit ''Bees_essay.txt'') (lit ''text/plain'')],
    submitted = [lit ''Write a academic essay of around 1000 words on the topic: 'Bees'. Include an introduction, body, and conclusion. Make it coherent, structured, and engaging.'']\<rparr>"
  by (simp add: generate_essay_def try_body_def response_essay_def save_essay_def load_history_def
      base_prompt_def lower_def str_int_def str_nat.simps strip_def isspace_def
      docx_file_name_def txt_file_name_def replace_char_def utf8_char_def lit_def)

lemma download_buttons_named:
  "DownloadButton l d fnm m \<in> set (shown (generate_essay ev fs path tn wc topic text_data)) \<Longrightarrow>
   fnm = docx_file_name topic \<or> fnm = txt_file_name topic"
  by (auto simp add: generate_essay_def try_body_def Let_def split: if_splits sum.splits)

text \<open>
  C4. With an empty topic and empty supporting text the request is rejected: the
  warning is shown, nothing is submitted to the remote service, and the file system
  is as before.
\<close>

theorem empty_request_rejected:
  "generate_essay ev fs path tn word_count [] [] =
     \<lparr>files = fs,
      shown = [Warning (lit ''Please provide a topic or upload content first.'')],
      submitted = []\<rparr>"
  by (simp add: generate_essay_def)

text \<open>
  C5. With non-empty supporting text exactly one message is submitted to the remote
  service: the instruction composed without supporting text, then the
  supporting-material heading, then the supporting text itself when it has at most
  4000 characters and its first 4000 characters otherwise.
\<close>

theorem supporting_text_truncated:
  "text_data \<noteq> [] \<Longrightarrow>
   submitted (generate_essay ev fs path tn wc topic text_data) =
     [base_prompt tn wc topic []
      @ [10, 10] @ lit ''Use the following text as supporting material:'' @ [10]
      @ (if length text_data \<le> 4000 then text_data else take 4000 text_data)]"
  by (simp add: submitted_generate) (simp add: base_prompt_def)

theorem supporting_text_truncated_witness:
  "replicate 4000 97 @ lit ''tail'' \<noteq> []
   \<and> submitted (generate_essay
        \<lparr>create = (\<lambda>p. Inr [Some (lit ''An essay.'')]), now = lit ''2024-01-01 10:00:00'',
         docx_save = (\<lambda>h p. Inr [80, 75])\<rparr>
        \<lparr>users_json = None, history_files = Map.empty\<rparr> (user_history_path (lit ''amy''))
        Academic 1000 (lit ''Bees'') (replicate 4000 97 @ lit ''tail'')) =
     [base_prompt Academic 1000 (lit ''Bees'') []
      @ [10, 10] @ lit ''Use the following text as supporting material:'' @ [10]
      @ replicate 4000 97]"
proof -
  have h: "replicate 4000 97 @ lit ''tail'' \<noteq> ([]::pystr)"
    by (simp add: lit_def)
  from supporting_text_truncated [OF h] h show ?thesis
    by (simp add: lit_def)
qed


text \<open>
  C8. When the call to the remote service raises, the file system after the cycle is
  the file system before it: no history file is written.
\<close>

theorem failed_generation_keeps_history:
  "create ev (base_prompt tn wc topic text_data) = Inl e \<Longrightarrow>
   files (generate_essay ev fs path tn wc topic text_data) = fs"
  by (simp add: generate_essay_def try_body_def)

theorem failed_generation_keeps_history_witness:
  "create \<lparr>create = (\<lambda>p. Inl (LibraryError (lit ''quota exceeded''))),
           now = lit ''2024-01-01 10:00:00'', docx_save = (\<lambda>h p. Inr [80, 75])\<rparr>
     (base_prompt Creative 500 (lit ''Bees'') []) = Inl (LibraryError (lit ''quota exceeded''))
   \<and> files (generate_essay
        \<lparr>create = (\<lambda>p. Inl (LibraryError (lit ''quota exceeded''))),
         now = lit ''2024-01-01 10:00:00'', docx_save = (\<lambda>h p. Inr [80, 75])\<rparr>
        \<lparr>users_json = None,
         history_files = [user_history_path (lit ''amy'') \<mapsto>
           Json [\<lparr>title = lit ''Ants'', content = lit ''Ants dig.'', timestamp = lit ''2023-12-31 09:00:00''\<rparr>]]\<rparr>
        (user_history_path (lit ''amy'')) Creative 500 (lit ''Bees'') []) =
       \<lparr>users_json = None,
         history_files = [user_history_path (lit ''amy'') \<mapsto>
           Json [\<lparr>title = lit ''Ants'', content = lit ''Ants dig.'', timestamp = lit ''2023-12-31 09:00:00''\<rparr>]]\<rparr>"
proof -
  have h: "create \<lparr>create = (\<lambda>p. Inl (LibraryError (lit ''quota exceeded''))),
           now = lit ''2024-01-01 10:00:00'', docx_save = (\<lambda>h p. Inr [80, 75])\<rparr>
     (base_prompt Creative 500 (lit ''Bees'') []) = Inl (LibraryError (lit ''quota exceeded''))"
    by simp
  from failed_generation_keeps_history [OF h] h show ?thesis
    by blast
qed

end
